theory Spec2Isabelle
  imports Main
begin

section \<open>Python values, errors and builtins used by asciitable\<close>

text \<open>
  The exceptions the reader can raise. The two field-count messages of
  \<^verbatim>\<open>InconsistentTableError\<close> keep the numbers and lists the source formats into the
  message: the header/first-row mismatch of \<^verbatim>\<open>BaseHeader.get_cols\<close>, the row mismatch
  of \<^verbatim>\<open>BaseReader.read\<close> (number of columns, number of fields, data line index, column
  names, fields), and the guesser's final message.
\<close>

datatype incons =
    HeaderMismatch nat nat "string list" "string list"
  | RowMismatch nat nat nat "string list" "string list"
  | UnableToGuess

datatype error =
    InconsistentTableError incons
  | ValueError string
  | TypeError string
  | NameError string
  | IndexError
  | StopIteration

text \<open>A generator: the values it yields, ended by exhaustion or by an exception.\<close>

datatype 'a gen = Stop | Yield 'a "'a gen" | Raise error

fun gen_next :: "'a gen \<Rightarrow> error + 'a" where
  "gen_next Stop = Inl StopIteration"
| "gen_next (Yield x g) = Inr x"
| "gen_next (Raise e) = Inl e"

fun gen_of_list :: "'a list \<Rightarrow> 'a gen" where
  "gen_of_list [] = Stop"
| "gen_of_list (x # xs) = Yield x (gen_of_list xs)"

text \<open>The first \<open>n\<close> values a generator yields, when it yields that many.\<close>

fun gen_take :: "nat \<Rightarrow> 'a gen \<Rightarrow> 'a list option" where
  "gen_take 0 g = Some []"
| "gen_take (Suc n) (Yield x g) = map_option ((#) x) (gen_take n g)"
| "gen_take (Suc n) Stop = None"
| "gen_take (Suc n) (Raise e) = None"

text \<open>\<^verbatim>\<open>str.isspace\<close> on one byte and \<^verbatim>\<open>str.strip()\<close>.\<close>

definition isspace :: "char \<Rightarrow> bool" where
  "isspace c = (c \<in> set [CHR '' '', CHR 0x09, CHR 0x0A, CHR 0x0B, CHR 0x0C, CHR 0x0D])"

definition lstrip :: "string \<Rightarrow> string" where
  "lstrip s = dropWhile isspace s"

definition rstrip :: "string \<Rightarrow> string" where
  "rstrip s = rev (dropWhile isspace (rev s))"

definition strip :: "string \<Rightarrow> string" where
  "strip s = rstrip (lstrip s)"

definition isdigit :: "char \<Rightarrow> bool" where
  "isdigit c = (c \<in> set ''0123456789'')"

definition digit_val :: "char \<Rightarrow> int" where
  "digit_val c = int (of_char c) - 48"

definition drop_sign :: "string \<Rightarrow> string" where
  "drop_sign s = (case s of [] \<Rightarrow> [] | c # r \<Rightarrow> if c = CHR ''+'' \<or> c = CHR ''-'' then r else s)"

text \<open>
  \<^verbatim>\<open>int(x)\<close> on a string: surrounding whitespace is ignored, then an optional sign and
  at least one decimal digit; anything else is ValueError (\<open>None\<close> here).
\<close>

definition py_int :: "string \<Rightarrow> int option" where
  "py_int x =
     (let s = strip x; d = drop_sign s in
      if d \<noteq> [] \<and> list_all isdigit d
      then Some ((if s \<noteq> [] \<and> hd s = CHR ''-'' then -1 else 1) *
                 foldl (\<lambda>a c. 10 * a + digit_val c) 0 d)
      else None)"

definition lower :: "char \<Rightarrow> char" where
  "lower c = (if c \<in> set ''ABCDEFGHIJKLMNOPQRSTUVWXYZ'' then char_of (of_char c + (32::nat)) else c)"

definition exponent_ok :: "string \<Rightarrow> bool" where
  "exponent_ok r =
     (case r of [] \<Rightarrow> True
      | c # e \<Rightarrow> (c = CHR ''e'' \<or> c = CHR ''E'') \<and>
                 (let d = drop_sign e in d \<noteq> [] \<and> list_all isdigit d))"

definition decimal_ok :: "string \<Rightarrow> bool" where
  "decimal_ok s =
     (let ip = takeWhile isdigit s; r1 = dropWhile isdigit s in
      case r1 of
        [] \<Rightarrow> ip \<noteq> []
      | c # r \<Rightarrow>
          if c = CHR ''.''
          then (let fp = takeWhile isdigit r; r2 = dropWhile isdigit r in
                \<not> (ip = [] \<and> fp = []) \<and> exponent_ok r2)
          else ip \<noteq> [] \<and> exponent_ok r1)"

text \<open>
  Whether \<^verbatim>\<open>float(x)\<close> returns for a string: surrounding whitespace is ignored, then an
  optional sign and either a decimal literal with optional fraction and exponent, or one
  of inf, infinity, nan in any letter case. Otherwise it raises ValueError.
\<close>

definition py_float_ok :: "string \<Rightarrow> bool" where
  "py_float_ok x =
     (let d = drop_sign (strip x) in
      decimal_ok d \<or> map lower d \<in> set [''inf'', ''infinity'', ''nan''])"

text \<open>
  The float \<^verbatim>\<open>float(x)\<close> returns is kept as the literal it was read from, so that no
  rounding has to be modelled.
\<close>

datatype pyfloat = PyFloat string

definition py_float :: "string \<Rightarrow> pyfloat option" where
  "py_float x = (if py_float_ok x then Some (PyFloat (strip x)) else None)"

text \<open>\<^verbatim>\<open>'%d' % i\<close> for a natural number.\<close>

fun str_of_nat :: "nat \<Rightarrow> string" where
  "str_of_nat n =
     (if n < 10 then [char_of (48 + n)]
      else str_of_nat (n div 10) @ [char_of (48 + n mod 10)])"

text \<open>
  \<^verbatim>\<open>xs[start:stop]\<close> with \<^verbatim>\<open>None\<close> or integer bounds: a negative bound counts from
  the end, and both are clipped to the list.
\<close>

definition clip_index :: "nat \<Rightarrow> int \<Rightarrow> nat" where
  "clip_index n i = (if i < 0 then nat (max 0 (int n + i)) else min n (nat i))"

definition py_slice :: "int option \<Rightarrow> int option \<Rightarrow> 'a list \<Rightarrow> 'a list" where
  "py_slice start stop xs =
     (let n = length xs;
          a = (case start of None \<Rightarrow> 0 | Some i \<Rightarrow> clip_index n i);
          b = (case stop of None \<Rightarrow> n | Some j \<Rightarrow> clip_index n j)
      in take (b - a) (drop a xs))"

section \<open>Columns and typed values\<close>

datatype pyvals = IntVals "int list" | FloatVals "pyfloat list" | StrVals "string list"

text \<open>
  \<^verbatim>\<open>class Column\<close>: \<^verbatim>\<open>name\<close>, \<^verbatim>\<open>index\<close> and \<^verbatim>\<open>str_vals\<close> are set by the
  constructor; \<^verbatim>\<open>mask\<close> and \<^verbatim>\<open>data\<close> are attributes added later, absent (\<open>None\<close>)
  until then.
\<close>

record column =
  name :: string
  index :: nat
  str_vals :: "string list"
  mask :: "bool list option"
  data :: "pyvals option"

definition Column :: "string \<Rightarrow> nat \<Rightarrow> column" where
  "Column nm i = \<lparr>name = nm, index = i, str_vals = [], mask = None, data = None\<rparr>"

section \<open>BaseOutputter\<close>

type_synonym converter = "string list \<Rightarrow> error + pyvals"

text \<open>The three entries of \<^verbatim>\<open>BaseOutputter.default_converter\<close>.\<close>

definition conv_int :: converter where
  "conv_int vals =
     (case those (map py_int vals) of
        None \<Rightarrow> Inl (ValueError ''invalid literal for int()'')
      | Some is \<Rightarrow> Inr (IntVals is))"

definition conv_float :: converter where
  "conv_float vals =
     (case those (map py_float vals) of
        None \<Rightarrow> Inl (ValueError ''could not convert string to float'')
      | Some fs \<Rightarrow> Inr (FloatVals fs))"

definition conv_str :: converter where
  "conv_str vals = Inr (StrVals vals)"

definition default_converter :: "converter list" where
  "default_converter = [conv_int, conv_float, conv_str]"

text \<open>
  An entry of the \<^verbatim>\<open>converters\<close> dictionary is a list of converters or one converter:
  \<^verbatim>\<open>converters[:]\<close> copies a list, and its TypeError on a function wraps the function
  into a one-element list.
\<close>

datatype conv_spec = ConvList "converter list" | ConvOne converter

fun col_converters :: "conv_spec \<Rightarrow> converter list" where
  "col_converters (ConvList cs) = cs"
| "col_converters (ConvOne c) = [c]"

definition failed_to_convert :: "string \<Rightarrow> error" where
  "failed_to_convert nm = ValueError (''Column '' @ nm @ '' failed to convert'')"

text \<open>
  The \<^verbatim>\<open>while not hasattr(col, 'data')\<close> loop of \<^verbatim>\<open>_convert_vals\<close>: the first
  converter is applied to the whole column; TypeError and ValueError drop it from the
  list; IndexError (the list is empty, or the converter raised it) ends with the
  ValueError naming the column; any other exception propagates.
\<close>

fun try_converters :: "string \<Rightarrow> converter list \<Rightarrow> string list \<Rightarrow> error + pyvals" where
  "try_converters nm [] vals = Inl (failed_to_convert nm)"
| "try_converters nm (c # cs) vals =
     (case c vals of
        Inr d \<Rightarrow> Inr d
      | Inl (TypeError m) \<Rightarrow> try_converters nm cs vals
      | Inl (ValueError m) \<Rightarrow> try_converters nm cs vals
      | Inl IndexError \<Rightarrow> Inl (failed_to_convert nm)
      | Inl e \<Rightarrow> Inl e)"

definition convert_col :: "(string \<rightharpoonup> conv_spec) \<Rightarrow> column \<Rightarrow> error + column" where
  "convert_col converters col =
     (let cs = (case converters (name col) of
                  None \<Rightarrow> default_converter
                | Some sp \<Rightarrow> col_converters sp)
      in case data col of
           Some d \<Rightarrow> Inr col
         | None \<Rightarrow>
             (case try_converters (name col) cs (str_vals col) of
                Inl e \<Rightarrow> Inl e
              | Inr d \<Rightarrow> Inr (col\<lparr>data := Some d\<rparr>)))"

fun convert_vals :: "(string \<rightharpoonup> conv_spec) \<Rightarrow> column list \<Rightarrow> error + column list" where
  "convert_vals converters [] = Inr []"
| "convert_vals converters (col # cols) =
     (case convert_col converters col of
        Inl e \<Rightarrow> Inl e
      | Inr col' \<Rightarrow>
          (case convert_vals converters cols of
             Inl e \<Rightarrow> Inl e
           | Inr cols' \<Rightarrow> Inr (col' # cols')))"

text \<open>
  The table \<^verbatim>\<open>BaseOutputter.__call__\<close> returns: a dictionary from column name to
  column (a later column of the same name replaces an earlier one) and
  \<^verbatim>\<open>dtype.names\<close>, the names in column order.
\<close>

record table =
  dtype_names :: "string list"
  columns :: "string \<rightharpoonup> column"

definition BaseOutputter_call :: "(string \<rightharpoonup> conv_spec) \<Rightarrow> column list \<Rightarrow> error + table" where
  "BaseOutputter_call converters cols =
     (case convert_vals converters cols of
        Inl e \<Rightarrow> Inl e
      | Inr cols' \<Rightarrow>
          Inr \<lparr>dtype_names = map name cols',
               columns = map_of (rev (map (\<lambda>c. (name c, c)) cols'))\<rparr>)"

section \<open>Splitters\<close>

text \<open>
  \<^verbatim>\<open>line.split(None)\<close> splits at runs of whitespace and yields no empty string;
  \<^verbatim>\<open>line.split(d)\<close> splits at every occurrence of the non-empty string \<open>d\<close>.
\<close>

fun split_ws :: "string \<Rightarrow> string \<Rightarrow> string list" where
  "split_ws cur [] = (if cur = [] then [] else [cur])"
| "split_ws cur (c # s) =
     (if isspace c then (if cur = [] then split_ws [] s else cur # split_ws [] s)
      else split_ws (cur @ [c]) s)"

fun split_on :: "string \<Rightarrow> string \<Rightarrow> string \<Rightarrow> string list" where
  "split_on d cur [] = [cur]"
| "split_on d cur (c # s) =
     (if d \<noteq> [] \<and> take (length d) (c # s) = d
      then cur # split_on d [] (drop (length d - 1) s)
      else split_on d (cur @ [c]) s)"

text \<open>
  \<^verbatim>\<open>class BaseSplitter\<close>: \<^verbatim>\<open>delimiter\<close> is \<^verbatim>\<open>None\<close> or a string, and the two hooks
  \<^verbatim>\<open>process_line\<close> and \<^verbatim>\<open>process_val\<close> are functions (by default \<^verbatim>\<open>strip\<close>) or
  \<^verbatim>\<open>None\<close>. Calling the splitter gives a generator of field lists; an empty delimiter
  makes \<^verbatim>\<open>split\<close> raise ValueError.
\<close>

record base_splitter =
  delimiter :: "string option"
  process_line :: "(string \<Rightarrow> string) option"
  process_val :: "(string \<Rightarrow> string) option"

definition BaseSplitter :: base_splitter where
  "BaseSplitter = \<lparr>delimiter = None, process_line = Some strip, process_val = Some strip\<rparr>"

fun BaseSplitter_call :: "base_splitter \<Rightarrow> string list \<Rightarrow> string list gen" where
  "BaseSplitter_call sp [] = Stop"
| "BaseSplitter_call sp (x # xs) =
     (let line = (case process_line sp of None \<Rightarrow> x | Some f \<Rightarrow> f x) in
      case delimiter sp of
        None \<Rightarrow>
          Yield (case process_val sp of None \<Rightarrow> split_ws [] line
                 | Some f \<Rightarrow> map f (split_ws [] line))
                (BaseSplitter_call sp xs)
      | Some d \<Rightarrow>
          if d = [] then Raise (ValueError ''empty separator'')
          else Yield (case process_val sp of None \<Rightarrow> split_on d [] line
                      | Some f \<Rightarrow> map f (split_on d [] line))
                     (BaseSplitter_call sp xs))"

section \<open>Line locators\<close>

text \<open>
  \<^verbatim>\<open>start_line\<close> and \<^verbatim>\<open>end_line\<close> are \<^verbatim>\<open>None\<close>, an integer, or a function of the
  lines that returns \<^verbatim>\<open>None\<close> or an integer.
\<close>

datatype locator = LNone | LInt int | LFunc "string list \<Rightarrow> int option"

fun get_line_index :: "locator \<Rightarrow> string list \<Rightarrow> int option" where
  "get_line_index (LFunc f) lines = f lines"
| "get_line_index (LInt i) lines = Some i"
| "get_line_index LNone lines = None"

text \<open>
  The regular-expression engine is a parameter: \<open>rx p x\<close> says whether
  \<^verbatim>\<open>re.compile(p).match(x)\<close> finds a match at the start of \<open>x\<close>. A comment pattern is
  used only when it is true as a Python value: neither \<^verbatim>\<open>None\<close> nor the empty string.
\<close>

type_synonym regex = "string \<Rightarrow> string \<Rightarrow> bool"

definition truthy :: "string option \<Rightarrow> bool" where
  "truthy c = (case c of None \<Rightarrow> False | Some p \<Rightarrow> p \<noteq> [])"

section \<open>BaseHeader\<close>

record BaseHeader =
  header_start_line :: locator
  header_comment :: "string option"
  header_splitter :: "string list \<Rightarrow> string list gen"
  header_names :: "string list option"
  header_include_names :: "string list option"
  header_exclude_names :: "string list option"

text \<open>
  \<^verbatim>\<open>BaseHeader.process_lines\<close>, a generator. The test is
  \<^verbatim>\<open>line and not self.comment or not re_comment.match(line)\<close>, which Python reads as
  \<^verbatim>\<open>(line and not self.comment) or (not re_comment.match(line))\<close>. The local
  \<^verbatim>\<open>re_comment\<close> is bound only when the comment pattern is true, so reading it
  otherwise raises UnboundLocalError, a NameError.
\<close>

fun BaseHeader_process_lines :: "regex \<Rightarrow> string option \<Rightarrow> string list \<Rightarrow> string gen" where
  "BaseHeader_process_lines rx comment [] = Stop"
| "BaseHeader_process_lines rx comment (line # lines) =
     (if line \<noteq> [] \<and> \<not> truthy comment
      then Yield line (BaseHeader_process_lines rx comment lines)
      else if truthy comment
      then (if \<not> rx (the comment) line
            then Yield line (BaseHeader_process_lines rx comment lines)
            else BaseHeader_process_lines rx comment lines)
      else Raise (NameError ''re_comment''))"

text \<open>
  The \<^verbatim>\<open>for i, line in enumerate(...)\<close> loop of \<^verbatim>\<open>get_cols\<close> with its
  \<^verbatim>\<open>else\<close> branch: the line yielded at position \<open>start_line\<close>, or ValueError when the
  generator ends first.
\<close>

fun find_header_line :: "int \<Rightarrow> nat \<Rightarrow> string gen \<Rightarrow> error + string" where
  "find_header_line start i Stop = Inl (ValueError ''No header line found in table'')"
| "find_header_line start i (Raise e) = Inl e"
| "find_header_line start i (Yield line g) =
     (if int i = start then Inr line else find_header_line start (Suc i) g)"

text \<open>
  The last statements of \<^verbatim>\<open>get_cols\<close>: the set of names is intersected with
  \<^verbatim>\<open>include_names\<close>, then \<^verbatim>\<open>exclude_names\<close> is removed from it, and a column is
  made for every position of the full name list whose name is left, with that position
  as its index.
\<close>

definition select_cols :: "string list \<Rightarrow> string list option \<Rightarrow> string list option \<Rightarrow> column list" where
  "select_cols nms incl excl =
     (let s0 = set nms;
          s1 = (case incl of None \<Rightarrow> s0 | Some inc \<Rightarrow> s0 \<inter> set inc);
          s2 = (case excl of None \<Rightarrow> s1 | Some exc \<Rightarrow> s1 - set exc)
      in map (\<lambda>(i, x). Column x i) (filter (\<lambda>(i, x). x \<in> s2) (enumerate 0 nms)))"

definition auto_names :: "nat \<Rightarrow> string list" where
  "auto_names n = map (\<lambda>i. ''col'' @ str_of_nat i) [1 ..< n + 1]"

definition resolve_names :: "regex \<Rightarrow> BaseHeader \<Rightarrow> nat \<Rightarrow> string list \<Rightarrow> error + string list" where
  "resolve_names rx h n_data_cols lines =
     (case get_line_index (header_start_line h) lines of
        None \<Rightarrow>
          (case header_names h of
             None \<Rightarrow> Inr (auto_names n_data_cols)
           | Some nms \<Rightarrow> Inr nms)
      | Some start \<Rightarrow>
          (case header_names h of
             Some nms \<Rightarrow> Inr nms
           | None \<Rightarrow>
               (case find_header_line start 0
                       (BaseHeader_process_lines rx (header_comment h) lines) of
                  Inl e \<Rightarrow> Inl e
                | Inr line \<Rightarrow> gen_next (header_splitter h [line]))))"

text \<open>
  \<^verbatim>\<open>BaseHeader.get_cols\<close>. Its first argument is the generator
  \<^verbatim>\<open>self.data.get_str_vals()\<close>; the result is \<^verbatim>\<open>self.names\<close> and \<^verbatim>\<open>self.cols\<close>.
\<close>

definition get_cols :: "regex \<Rightarrow> BaseHeader \<Rightarrow> string list gen \<Rightarrow> string list \<Rightarrow>
    error + string list \<times> column list" where
  "get_cols rx h vals lines =
     (case gen_next vals of
        Inl e \<Rightarrow> Inl e
      | Inr first_data_vals \<Rightarrow>
          (case resolve_names rx h (length first_data_vals) lines of
             Inl e \<Rightarrow> Inl e
           | Inr nms \<Rightarrow>
               if length nms \<noteq> length first_data_vals
               then Inl (InconsistentTableError
                           (HeaderMismatch (length nms) (length first_data_vals)
                              nms first_data_vals))
               else Inr (nms, select_cols nms (header_include_names h)
                                  (header_exclude_names h))))"

section \<open>BaseData\<close>

record BaseData =
  data_start_line :: locator
  data_end_line :: locator
  data_comment :: "string option"
  data_splitter :: "string list \<Rightarrow> string list gen"
  fill_values :: "(string \<rightharpoonup> string) option"

text \<open>
  \<^verbatim>\<open>BaseData.process_lines\<close>: the lines that are not blank (\<^verbatim>\<open>x.strip()\<close> is not
  empty), and of these, when a comment pattern is set, the ones it does not match.
\<close>

definition BaseData_process_lines :: "regex \<Rightarrow> string option \<Rightarrow> string list \<Rightarrow> string list" where
  "BaseData_process_lines rx comment lines =
     (let nonblank_lines = filter (\<lambda>x. strip x \<noteq> []) lines in
      if truthy comment then filter (\<lambda>x. \<not> rx (the comment) x) nonblank_lines
      else nonblank_lines)"

text \<open>
  The stop of \<^verbatim>\<open>slice(start_line, self.end_line)\<close> is the attribute itself, not the
  index computed from it: \<^verbatim>\<open>None\<close> and an integer are slice bounds, a function is not,
  and slicing the list with it raises TypeError.
\<close>

fun slice_stop :: "locator \<Rightarrow> error + int option" where
  "slice_stop LNone = Inr None"
| "slice_stop (LInt j) = Inr (Some j)"
| "slice_stop (LFunc f) =
     Inl (TypeError ''slice indices must be integers or None or have an __index__ method'')"

definition get_data_lines :: "regex \<Rightarrow> BaseData \<Rightarrow> string list \<Rightarrow> error + string list" where
  "get_data_lines rx d lines =
     (let data_lines = BaseData_process_lines rx (data_comment d) lines;
          start_line = get_line_index (data_start_line d) data_lines;
          end_line = get_line_index (data_end_line d) data_lines
      in if start_line \<noteq> None \<or> end_line \<noteq> None
         then (case slice_stop (data_end_line d) of
                 Inl e \<Rightarrow> Inl e
               | Inr stop \<Rightarrow> Inr (py_slice start_line stop data_lines))
         else Inr data_lines)"

definition get_str_vals :: "BaseData \<Rightarrow> string list \<Rightarrow> string list gen" where
  "get_str_vals d data_lines = data_splitter d data_lines"

text \<open>
  \<^verbatim>\<open>BaseData.set_masks\<close>. The generator expression filters with
  \<^verbatim>\<open>x in fill_values\<close> and the loop body reads \<^verbatim>\<open>fill_values[str_val]\<close>: the bare
  name \<^verbatim>\<open>fill_values\<close>, not the attribute \<^verbatim>\<open>self.fill_values\<close>. The function binds
  \<^verbatim>\<open>self\<close>, \<^verbatim>\<open>cols\<close>, \<^verbatim>\<open>col\<close>, \<^verbatim>\<open>i\<close>, \<^verbatim>\<open>str_val\<close> and \<^verbatim>\<open>x\<close>, and the
  module binds no \<^verbatim>\<open>fill_values\<close>, so evaluating the name raises NameError. That
  happens for the first value of a column; a column without values is never filtered.
\<close>

definition module_names :: "string list" where
  "module_names =
     [''os'', ''sys'', ''re'', ''csv'', ''itertools'', ''numpy'', ''has_numpy'',
      ''InconsistentTableError'', ''Column'', ''BaseInputter'', ''BaseSplitter'',
      ''DefaultSplitter'', ''_get_line_index'', ''BaseHeader'', ''BaseData'',
      ''_DictLikeNumpy'', ''BaseOutputter'', ''convert_numpy'', ''NumpyOutputter'',
      ''BaseReader'', ''BasicReader'', ''extra_reader_pars'', ''get_reader'', ''read'',
      ''ContinuationLinesInputter'', ''NoHeaderReader'', ''CommentedHeader'',
      ''CommentedHeaderReader'', ''TabReader'', ''RdbReader'', ''DaophotReader'',
      ''DaophotHeader'', ''FixedWidthSplitter'', ''CdsHeader'', ''CdsData'', ''CdsReader'']"

definition set_masks_locals :: "string list" where
  "set_masks_locals = [''self'', ''cols'', ''col'', ''i'', ''str_val'', ''x'']"

definition lookup_name :: "string \<Rightarrow> 'a \<Rightarrow> error + 'a" where
  "lookup_name nm v =
     (if nm \<in> set set_masks_locals \<or> nm \<in> set module_names then Inr v
      else Inl (NameError nm))"

fun fill_loop :: "(string \<rightharpoonup> string) \<Rightarrow> string list \<Rightarrow> error + (string \<times> bool) list" where
  "fill_loop fv [] = Inr []"
| "fill_loop fv (x # xs) =
     (case lookup_name ''fill_values'' fv of
        Inl e \<Rightarrow> Inl e
      | Inr fvs \<Rightarrow>
          (case fill_loop fv xs of
             Inl e \<Rightarrow> Inl e
           | Inr r \<Rightarrow>
               (case fvs x of
                  None \<Rightarrow> Inr ((x, False) # r)
                | Some y \<Rightarrow> Inr ((y, True) # r))))"

fun set_masks_cols :: "(string \<rightharpoonup> string) \<Rightarrow> column list \<Rightarrow> error + column list" where
  "set_masks_cols fv [] = Inr []"
| "set_masks_cols fv (col # cols) =
     (case fill_loop fv (str_vals col) of
        Inl e \<Rightarrow> Inl e
      | Inr r \<Rightarrow>
          (case set_masks_cols fv cols of
             Inl e \<Rightarrow> Inl e
           | Inr cols' \<Rightarrow>
               Inr (col\<lparr>str_vals := map fst r, mask := Some (map snd r)\<rparr> # cols')))"

definition set_masks :: "BaseData \<Rightarrow> column list \<Rightarrow> error + column list" where
  "set_masks d cols =
     (case fill_values d of
        None \<Rightarrow> Inr cols
      | Some fv \<Rightarrow> set_masks_cols fv cols)"

section \<open>BaseReader\<close>

record BaseReader =
  reader_header :: BaseHeader
  reader_data :: BaseData
  reader_converters :: "string \<rightharpoonup> conv_spec"

text \<open>
  \<^verbatim>\<open>BaseInputter.get_lines\<close> for a list of strings: the list is not a string, so the
  second \<^verbatim>\<open>try\<close> reads \<^verbatim>\<open>table[0]\<close>, which raises IndexError for the empty list,
  and the lines are the list itself.
\<close>

definition get_lines :: "string list \<Rightarrow> error + string list" where
  "get_lines tbl = (if tbl = [] then Inl IndexError else Inr tbl)"

text \<open>
  \<^verbatim>\<open>for col in cols: col.str_vals.append(str_vals[col.index])\<close>, with the IndexError
  of an index outside the row.
\<close>

fun append_vals :: "column list \<Rightarrow> string list \<Rightarrow> error + column list" where
  "append_vals [] vals = Inr []"
| "append_vals (col # cols) vals =
     (if index col < length vals
      then (case append_vals cols vals of
              Inl e \<Rightarrow> Inl e
            | Inr cols' \<Rightarrow> Inr (col\<lparr>str_vals := str_vals col @ [vals ! index col]\<rparr> # cols'))
      else Inl IndexError)"

text \<open>
  The loop of \<^verbatim>\<open>BaseReader.read\<close> over \<^verbatim>\<open>enumerate(self.data.get_str_vals())\<close>.
  \<open>n_data_cols\<close> is unbound until the row of index 0 sets it.
\<close>

fun read_rows :: "column list \<Rightarrow> nat option \<Rightarrow> nat \<Rightarrow> string list gen \<Rightarrow> error + column list" where
  "read_rows cols n_data_cols i Stop = Inr cols"
| "read_rows cols n_data_cols i (Raise e) = Inl e"
| "read_rows cols n_data_cols i (Yield vals g) =
     (case (if i = 0 then Some (length vals) else n_data_cols) of
        None \<Rightarrow> Inl (NameError ''n_data_cols'')
      | Some n \<Rightarrow>
          if length vals \<noteq> n
          then Inl (InconsistentTableError
                      (RowMismatch (length cols) (length vals) i (map name cols) vals))
          else (case append_vals cols vals of
                  Inl e \<Rightarrow> Inl e
                | Inr cols' \<Rightarrow> read_rows cols' (Some n) (Suc i) g))"

definition read :: "regex \<Rightarrow> BaseReader \<Rightarrow> string list \<Rightarrow> error + table" where
  "read rx rd tbl =
     (case get_lines tbl of
        Inl e \<Rightarrow> Inl e
      | Inr lines \<Rightarrow>
     (case get_data_lines rx (reader_data rd) lines of
        Inl e \<Rightarrow> Inl e
      | Inr data_lines \<Rightarrow>
     (case get_cols rx (reader_header rd) (get_str_vals (reader_data rd) data_lines) lines of
        Inl e \<Rightarrow> Inl e
      | Inr (nms, cols) \<Rightarrow>
     (case read_rows cols None 0 (get_str_vals (reader_data rd) data_lines) of
        Inl e \<Rightarrow> Inl e
      | Inr cols1 \<Rightarrow>
     (case set_masks (reader_data rd) cols1 of
        Inl e \<Rightarrow> Inl e
      | Inr cols2 \<Rightarrow> BaseOutputter_call (reader_converters rd) cols2)))))"

text \<open>
  A reader set up as \<^verbatim>\<open>BasicReader\<close> does (header on line 0, data from line 1, comment
  pattern \<^verbatim>\<open>\s*#\<close>), over given splitters.
\<close>

definition comment_hash :: string where
  "comment_hash = [CHR 0x5C, CHR ''s'', CHR ''*'', CHR ''#'']"

definition BasicReader_over :: "(string list \<Rightarrow> string list gen) \<Rightarrow> BaseReader" where
  "BasicReader_over sp =
     \<lparr>reader_header =
        \<lparr>header_start_line = LInt 0, header_comment = Some comment_hash,
         header_splitter = sp, header_names = None,
         header_include_names = None, header_exclude_names = None\<rparr>,
      reader_data =
        \<lparr>data_start_line = LInt 1, data_end_line = LNone,
         data_comment = Some comment_hash, data_splitter = sp, fill_values = None\<rparr>,
      reader_converters = Map.empty\<rparr>"

text \<open>
  What \<^verbatim>\<open>re.compile(p).match(x)\<close> finds for the pattern \<^verbatim>\<open>\s*#\<close>: whitespace, then a
  hash sign. Used where a concrete engine is needed.
\<close>

definition rx_hash :: regex where
  "rx_hash p x = (p = comment_hash \<and> (case lstrip x of [] \<Rightarrow> False | c # r \<Rightarrow> c = CHR ''#''))"

section \<open>The guesser of ui.py\<close>

text \<open>
  Keyword arguments are a dictionary from parameter name to value, kept as a list of
  pairs with distinct keys; \<^verbatim>\<open>Reader\<close> is one of the reader classes.
\<close>

datatype reader_class =
  Rdb | Tab | Cds | Daophot | Ipac | CommentedHeader | BasicReader | NoHeader

datatype kwval =
  ReaderV reader_class | StrV string | IntV int | ListV "string list" | ClassV string

type_synonym kwargs = "(string \<times> kwval) list"

definition dquote :: string where "dquote = [CHR 0x22]"
definition squote :: string where "squote = [CHR 0x27]"
definition backslash_s :: string where "backslash_s = [CHR 0x5C, CHR ''s'']"

definition get_guess_kwargs_list :: "kwargs list" where
  "get_guess_kwargs_list =
     [[(''Reader'', ReaderV Rdb)],
      [(''Reader'', ReaderV Tab)],
      [(''Reader'', ReaderV Cds)],
      [(''Reader'', ReaderV Daophot)],
      [(''Reader'', ReaderV Ipac)]] @
     concat (map (\<lambda>Reader.
       concat (map (\<lambda>delim.
         map (\<lambda>quotechar.
           [(''Reader'', ReaderV Reader), (''delimiter'', StrV delim),
            (''quotechar'', StrV quotechar)])
           [dquote, squote])
         [''|'', '','', '' '', backslash_s]))
       [CommentedHeader, BasicReader, NoHeader])"

text \<open>\<^verbatim>\<open>_is_number\<close>: \<^verbatim>\<open>float(x)\<close> returns, rather than raising ValueError.\<close>

definition is_number :: "string \<Rightarrow> bool" where
  "is_number x = py_float_ok x"

text \<open>
  The inner loop of \<^verbatim>\<open>_guess\<close> over \<^verbatim>\<open>read_kwargs.items()\<close>: a key the guess lacks
  is added; for a key it has with another value, \<^verbatim>\<open>continue\<close> goes on with the next
  key of this inner loop, and the guess keeps its own value.
\<close>

fun update_guess_kwargs :: "kwargs \<Rightarrow> kwargs \<Rightarrow> kwargs" where
  "update_guess_kwargs [] guess_kwargs = guess_kwargs"
| "update_guess_kwargs ((key, val) # items) guess_kwargs =
     (case map_of guess_kwargs key of
        None \<Rightarrow> update_guess_kwargs items (guess_kwargs @ [(key, val)])
      | Some v \<Rightarrow>
          if val \<noteq> v then update_guess_kwargs items guess_kwargs
          else update_guess_kwargs items guess_kwargs)"

definition bads :: "char list" where
  "bads = [CHR '' '', CHR '','', CHR ''|'', CHR 0x09, CHR 0x27, CHR 0x22]"

definition bad_name :: "string \<Rightarrow> bool" where
  "bad_name nm =
     (is_number nm \<or> length nm = 0 \<or> hd nm \<in> set bads \<or> last nm \<in> set bads)"

definition bad_cols :: "column list \<Rightarrow> bool" where
  "bad_cols cols = (length cols \<le> 1 \<or> list_ex (\<lambda>col. bad_name (name col)) cols)"

text \<open>The exceptions the \<^verbatim>\<open>except\<close> clause of the guessing loop catches.\<close>

fun caught :: "error \<Rightarrow> bool" where
  "caught (InconsistentTableError m) = True"
| "caught (ValueError m) = True"
| "caught (TypeError m) = True"
| "caught e = False"

text \<open>
  The reader itself is made by the module \<^verbatim>\<open>core\<close>: \<open>attempt kw\<close> stands for
  \<^verbatim>\<open>get_reader(**kw)\<close> followed by \<^verbatim>\<open>reader.read(table)\<close>, and gives the exception
  raised or the table with \<^verbatim>\<open>reader.cols\<close>. The loop returns the first table whose
  columns pass the name test; \<open>None\<close> is the loop ending without a \<^verbatim>\<open>return\<close>.
\<close>

fun guess_loop :: "(kwargs \<Rightarrow> error + 'd \<times> column list) \<Rightarrow> kwargs \<Rightarrow> kwargs list \<Rightarrow>
    error + 'd option" where
  "guess_loop attempt read_kwargs [] = Inr None"
| "guess_loop attempt read_kwargs (guess_kwargs # rest) =
     (case attempt (update_guess_kwargs read_kwargs guess_kwargs) of
        Inr (dat, cols) \<Rightarrow>
          if bad_cols cols then guess_loop attempt read_kwargs rest else Inr (Some dat)
      | Inl e \<Rightarrow> if caught e then guess_loop attempt read_kwargs rest else Inl e)"

definition guess_candidates :: "kwargs \<Rightarrow> kwargs list" where
  "guess_candidates read_kwargs = [read_kwargs] @ get_guess_kwargs_list"

definition guess :: "(kwargs \<Rightarrow> error + 'd \<times> column list) \<Rightarrow> kwargs \<Rightarrow> error + 'd" where
  "guess attempt read_kwargs =
     (case guess_loop attempt read_kwargs (guess_candidates read_kwargs) of
        Inl e \<Rightarrow> Inl e
      | Inr (Some dat) \<Rightarrow> Inr dat
      | Inr None \<Rightarrow>
          (case attempt read_kwargs of
             Inr (dat, cols) \<Rightarrow> Inr dat
           | Inl (InconsistentTableError m) \<Rightarrow> Inl (InconsistentTableError UnableToGuess)
           | Inl (ValueError m) \<Rightarrow> Inl (InconsistentTableError UnableToGuess)
           | Inl e \<Rightarrow> Inl e))"

text \<open>
  The candidate list as the specification words it: tab-delimited, RDB, CDS, DAOphot,
  then the product of readers, delimiters and quote characters.
\<close>

definition specified_guess_kwargs_list :: "kwargs list" where
  "specified_guess_kwargs_list =
     [[(''Reader'', ReaderV Tab)],
      [(''Reader'', ReaderV Rdb)],
      [(''Reader'', ReaderV Cds)],
      [(''Reader'', ReaderV Daophot)]] @
     concat (map (\<lambda>Reader.
       concat (map (\<lambda>delim.
         map (\<lambda>quotechar.
           [(''Reader'', ReaderV Reader), (''delimiter'', StrV delim),
            (''quotechar'', StrV quotechar)])
           [dquote, squote])
         [''|'', '','', '' '', backslash_s]))
       [CommentedHeader, BasicReader, NoHeader])"

section \<open>Concrete readers and inputs\<close>

text \<open>
  The basic reader with \<^verbatim>\<open>BaseSplitter\<close> for header and data (whitespace-separated
  fields), as \<^verbatim>\<open>get_reader(data_Splitter=BaseSplitter, header_Splitter=BaseSplitter)\<close>
  builds it.
\<close>

definition whitespace_reader :: BaseReader where
  "whitespace_reader = BasicReader_over (BaseSplitter_call BaseSplitter)"

definition reader_incl_AB_excl_B :: BaseReader where
  "reader_incl_AB_excl_B =
     whitespace_reader
       \<lparr>reader_header := (reader_header whitespace_reader)
          \<lparr>header_include_names := Some [''A'', ''B''],
           header_exclude_names := Some [''B'']\<rparr>\<rparr>"

definition table_BAC :: "string list" where
  "table_BAC = [''B A C'', ''1 2 3'', ''4 5 6'']"

text \<open>
  A reader over comma-separated fields with the fill rule of the \<^verbatim>\<open>BaseOutputter\<close>
  docstring, \<^verbatim>\<open>reader.data.fill_values = {'': '-999'}\<close>, and a table with an empty
  field.
\<close>

definition comma_fill_reader :: BaseReader where
  "comma_fill_reader =
     (BasicReader_over (BaseSplitter_call (BaseSplitter\<lparr>delimiter := Some '',''\<rparr>)))
       \<lparr>reader_data :=
          (reader_data
             (BasicReader_over (BaseSplitter_call (BaseSplitter\<lparr>delimiter := Some '',''\<rparr>))))
          \<lparr>fill_values := Some [[] \<mapsto> ''-999'']\<rparr>\<rparr>"

definition table_empty_field :: "string list" where
  "table_empty_field = [''a,b'', ''1,'', ''3,4'']"

text \<open>A reader whose \<^verbatim>\<open>data.end_line\<close> is the function \<^verbatim>\<open>lambda lines: 2\<close>.\<close>

definition end_func_reader :: BaseReader where
  "end_func_reader =
     whitespace_reader
       \<lparr>reader_data := (reader_data whitespace_reader)
          \<lparr>data_end_line := LFunc (\<lambda>lines. Some 2)\<rparr>\<rparr>"

definition table_abc :: "string list" where
  "table_abc = [''a b c'', ''1 2 3'', ''4 5 6'', ''7 8 9'']"

text \<open>A table with a comment line and an empty line before the header line.\<close>

definition table_blank_first :: "string list" where
  "table_blank_first = [''# fruit'', [], ''a b c'', ''1 2 3'']"

text \<open>Tables whose rows differ in length: the second data row, and the first against the header.\<close>

definition table_short_row :: "string list" where
  "table_short_row = [''a b c'', ''1 2 3'', ''4 5'', ''6 7 8'']"

definition table_short_first_row :: "string list" where
  "table_short_first_row = [''a b c'', ''1 2'', ''3 4 5'']"

text \<open>
  Keyword arguments as \<^verbatim>\<open>read\<close> passes them to \<^verbatim>\<open>_guess\<close> (it always adds the
  \<^verbatim>\<open>Outputter\<close>), and read attempts that depend on the keyword arguments only: one
  that converts for the RDB reader alone, one that never converts, one that parses with
  the pipe delimiter alone, and one that parses the caller's own configuration into
  columns named 1 and 2 and the tab reader's into columns named a and b.
\<close>

definition good_cols :: "column list" where
  "good_cols = [Column ''a'' 0, Column ''b'' 1]"

definition numeric_cols :: "column list" where
  "numeric_cols = [Column ''1'' 0, Column ''2'' 1]"

definition caller_kwargs :: kwargs where
  "caller_kwargs = [(''Outputter'', ClassV ''BaseOutputter'')]"

definition caller_kwargs_comma :: kwargs where
  "caller_kwargs_comma =
     [(''Outputter'', ClassV ''BaseOutputter''), (''delimiter'', StrV '','')]"

definition attempt_rdb_only :: "kwargs \<Rightarrow> error + string \<times> column list" where
  "attempt_rdb_only kw =
     (if map_of kw ''Reader'' = Some (ReaderV Rdb) then Inr (''rdb table'', good_cols)
      else Inl (failed_to_convert ''a''))"

definition attempt_never_converts :: "kwargs \<Rightarrow> error + string \<times> column list" where
  "attempt_never_converts kw = Inl (failed_to_convert ''a'')"

definition attempt_pipe_only :: "kwargs \<Rightarrow> error + string \<times> column list" where
  "attempt_pipe_only kw =
     (if map_of kw ''delimiter'' = Some (StrV ''|'') then Inr (''pipe table'', good_cols)
      else Inl (ValueError ''No header line found in table''))"

definition attempt_numeric_first :: "kwargs \<Rightarrow> error + string \<times> column list" where
  "attempt_numeric_first kw =
     (if map_of kw ''Reader'' = None then Inr (''numeric names'', numeric_cols)
      else if map_of kw ''Reader'' = Some (ReaderV Tab) then Inr (''tab table'', good_cols)
      else Inl (ValueError ''No header line found in table''))"

section \<open>Conversion of column values\<close>

lemma those_map_Some:
  "those (map f xs) = Some ys \<longleftrightarrow> (\<forall>x\<in>set xs. f x \<noteq> None) \<and> ys = map (the \<circ> f) xs"
  by (induction xs arbitrary: ys) (auto split: option.splits)

lemma those_map_None:
  "those (map f xs) = None \<longleftrightarrow> (\<exists>x\<in>set xs. f x = None)"
  by (induction xs) (auto split: option.splits)

lemma conv_int_eq:
  "conv_int vals =
     (if \<forall>v\<in>set vals. py_int v \<noteq> None
      then Inr (IntVals (map (the \<circ> py_int) vals))
      else Inl (ValueError ''invalid literal for int()''))"
  by (auto simp: conv_int_def those_map_Some those_map_None split: option.splits)

lemma conv_float_eq:
  "conv_float vals =
     (if \<forall>v\<in>set vals. py_float v \<noteq> None
      then Inr (FloatVals (map (the \<circ> py_float) vals))
      else Inl (ValueError ''could not convert string to float''))"
  by (auto simp: conv_float_def those_map_Some those_map_None split: option.splits)

lemma try_default_converter:
  "try_converters nm default_converter vals =
     Inr (if \<forall>v\<in>set vals. py_int v \<noteq> None then IntVals (map (the \<circ> py_int) vals)
          else if \<forall>v\<in>set vals. py_float v \<noteq> None
          then FloatVals (map (the \<circ> py_float) vals)
          else StrVals vals)"
  by (simp add: default_converter_def conv_int_eq conv_float_eq conv_str_def)

lemma convert_col_default:
  "converters (name col) = None \<Longrightarrow>
   convert_col converters col =
     Inr (case data col of
            Some d \<Rightarrow> col
          | None \<Rightarrow> col\<lparr>data := Some
             (if \<forall>v\<in>set (str_vals col). py_int v \<noteq> None
              then IntVals (map (the \<circ> py_int) (str_vals col))
              else if \<forall>v\<in>set (str_vals col). py_float v \<noteq> None
              then FloatVals (map (the \<circ> py_float) (str_vals col))
              else StrVals (str_vals col))\<rparr>)"
  by (simp add: convert_col_def try_default_converter split: option.splits)

lemma py_int_1: "py_int ''1'' = Some 1"
  by code_simp

lemma py_int_2: "py_int ''2'' = Some 2"
  by code_simp

lemma py_int_x: "py_int ''x'' = None"
  by code_simp

lemma py_float_x: "py_float ''x'' = None"
  by code_simp

text \<open>
  C10. A column without an entry in the \<^verbatim>\<open>converters\<close> dictionary always converts:
  \<^verbatim>\<open>_convert_vals\<close> returns for every list of such columns, whatever their strings,
  and never reaches the ``failed to convert'' error. A column that has no data yet
  gets the integers when every string reads as an integer, else the floats when every
  string reads as a float, else the strings themselves (the last default converter is
  the identity); names and strings are unchanged.
\<close>

theorem default_conversion_always_succeeds:
  assumes "\<forall>col\<in>set cols. converters (name col) = None"
  shows "\<exists>cols'. convert_vals converters cols = Inr cols' \<and>
           length cols' = length cols \<and>
           (\<forall>i<length cols.
              name (cols' ! i) = name (cols ! i) \<and>
              str_vals (cols' ! i) = str_vals (cols ! i) \<and>
              (data (cols ! i) = None \<longrightarrow>
                 data (cols' ! i) = Some
                   (if \<forall>v\<in>set (str_vals (cols ! i)). py_int v \<noteq> None
                    then IntVals (map (the \<circ> py_int) (str_vals (cols ! i)))
                    else if \<forall>v\<in>set (str_vals (cols ! i)). py_float v \<noteq> None
                    then FloatVals (map (the \<circ> py_float) (str_vals (cols ! i)))
                    else StrVals (str_vals (cols ! i)))))"
  using assms
proof (induction cols)
  case Nil
  then show ?case by simp
next
  case (Cons col cols)
  then obtain cols' where c: "convert_vals converters cols = Inr cols'"
      "length cols' = length cols"
      "\<forall>i<length cols.
              name (cols' ! i) = name (cols ! i) \<and>
              str_vals (cols' ! i) = str_vals (cols ! i) \<and>
              (data (cols ! i) = None \<longrightarrow>
                 data (cols' ! i) = Some
                   (if \<forall>v\<in>set (str_vals (cols ! i)). py_int v \<noteq> None
                    then IntVals (map (the \<circ> py_int) (str_vals (cols ! i)))
                    else if \<forall>v\<in>set (str_vals (cols ! i)). py_float v \<noteq> None
                    then FloatVals (map (the \<circ> py_float) (str_vals (cols ! i)))
                    else StrVals (str_vals (cols ! i))))"
    by auto
  from Cons.prems have n: "converters (name col) = None" by simp
  show ?case
    using c n
    by (auto simp: convert_col_default nth_Cons split: option.splits nat.splits)
qed

theorem default_conversion_always_succeeds_witness:
  "\<exists>cols'. convert_vals Map.empty
              [(Column ''a'' 0)\<lparr>str_vals := [''1'', ''2'', ''x'']\<rparr>,
               (Column ''b'' 1)\<lparr>str_vals := [''1'', ''2'']\<rparr>] = Inr cols' \<and>
           data (cols' ! 0) = Some (StrVals [''1'', ''2'', ''x'']) \<and>
           data (cols' ! 1) = Some (IntVals [1, 2])"
proof -
  let ?cols = "[(Column ''a'' 0)\<lparr>str_vals := [''1'', ''2'', ''x'']\<rparr>,
                (Column ''b'' 1)\<lparr>str_vals := [''1'', ''2'']\<rparr>]"
  have h: "\<forall>col\<in>set ?cols. (Map.empty :: string \<rightharpoonup> conv_spec) (name col) = None"
    by simp
  from default_conversion_always_succeeds[OF h] obtain cols' where
    c: "convert_vals Map.empty ?cols = Inr cols'" and
    d: "\<forall>i<length ?cols.
          name (cols' ! i) = name (?cols ! i) \<and>
          str_vals (cols' ! i) = str_vals (?cols ! i) \<and>
          (data (?cols ! i) = None \<longrightarrow>
             data (cols' ! i) = Some
               (if \<forall>v\<in>set (str_vals (?cols ! i)). py_int v \<noteq> None
                then IntVals (map (the \<circ> py_int) (str_vals (?cols ! i)))
                else if \<forall>v\<in>set (str_vals (?cols ! i)). py_float v \<noteq> None
                then FloatVals (map (the \<circ> py_float) (str_vals (?cols ! i)))
                else StrVals (str_vals (?cols ! i))))"
    by blast
  from d[rule_format, of 0] have d0: "data (cols' ! 0) = Some (StrVals [''1'', ''2'', ''x''])"
    by (simp add: Column_def py_int_1 py_int_2 py_int_x py_float_x)
  from d[rule_format, of 1] have d1: "data (cols' ! 1) = Some (IntVals [1, 2])"
    by (simp add: Column_def py_int_1 py_int_2)
  show ?thesis using c d0 d1 by blast
qed

section \<open>Column selection\<close>

lemma select_cols_names:
  "map name (select_cols nms incl excl) =
     filter (\<lambda>x. (case incl of None \<Rightarrow> True | Some inc \<Rightarrow> x \<in> set inc) \<and>
                  (case excl of None \<Rightarrow> True | Some exc \<Rightarrow> x \<notin> set exc)) nms"
proof -
  have a: "\<And>n P. map name (map (\<lambda>(i, x). Column x i)
                     (filter (\<lambda>(i, x). P x) (enumerate n nms))) = filter P nms"
    by (induction nms) (auto simp: Column_def)
  have "filter (\<lambda>x. x \<in> (let s0 = set nms;
          s1 = (case incl of None \<Rightarrow> s0 | Some inc \<Rightarrow> s0 \<inter> set inc);
          s2 = (case excl of None \<Rightarrow> s1 | Some exc \<Rightarrow> s1 - set exc) in s2)) nms
     = filter (\<lambda>x. (case incl of None \<Rightarrow> True | Some inc \<Rightarrow> x \<in> set inc) \<and>
                  (case excl of None \<Rightarrow> True | Some exc \<Rightarrow> x \<notin> set exc)) nms"
    by (rule filter_cong) (auto simp: Let_def split: option.splits)
  then show ?thesis
    unfolding select_cols_def Let_def using a by simp
qed

lemma select_cols_index:
  "col \<in> set (select_cols nms incl excl) \<Longrightarrow>
   index col < length nms \<and> nms ! index col = name col"
  by (auto simp: select_cols_def Let_def Column_def in_set_enumerate_eq)

lemma append_vals_names:
  "append_vals cols vals = Inr cols' \<Longrightarrow> map name cols' = map name cols"
  by (induction cols arbitrary: cols') (auto split: if_splits sum.splits)

lemma read_rows_names:
  "read_rows cols n i g = Inr cols' \<Longrightarrow> map name cols' = map name cols"
proof (induction g arbitrary: cols n i)
  case Stop
  then show ?case by simp
next
  case (Yield vals g)
  then show ?case
    by (auto split: if_splits sum.splits option.splits dest!: append_vals_names)
next
  case (Raise e)
  then show ?case by simp
qed

lemma set_masks_cols_names:
  "set_masks_cols fv cols = Inr cols' \<Longrightarrow> map name cols' = map name cols"
  by (induction cols arbitrary: cols') (auto split: sum.splits)

lemma set_masks_names:
  "set_masks d cols = Inr cols' \<Longrightarrow> map name cols' = map name cols"
  by (auto simp: set_masks_def split: option.splits dest: set_masks_cols_names)

lemma convert_col_name:
  "convert_col cv col = Inr col' \<Longrightarrow> name col' = name col"
  by (auto simp: convert_col_def Let_def split: option.splits sum.splits)

lemma convert_vals_names:
  "convert_vals cv cols = Inr cols' \<Longrightarrow> map name cols' = map name cols"
  by (induction cols arbitrary: cols') (auto split: sum.splits dest: convert_col_name)

lemma dom_map_of_rev: "dom (map_of (rev (map (\<lambda>c. (f c, c)) cs))) = set (map f cs)"
  by (simp add: dom_map_of_conv_image_fst image_image)

lemma read_dtype_names:
  assumes "read rx rd tbl = Inr t"
    and "get_data_lines rx (reader_data rd) tbl = Inr dl"
    and "get_cols rx (reader_header rd) (get_str_vals (reader_data rd) dl) tbl = Inr (nms, cols)"
  shows "dtype_names t = map name cols \<and> dom (columns t) = set (map name cols)"
proof -
  from assms(1) have l: "get_lines tbl = Inr tbl"
    by (auto simp: read_def get_lines_def split: if_splits)
  from assms l obtain cols1 cols2 cols3 where
    a: "read_rows cols None 0 (get_str_vals (reader_data rd) dl) = Inr cols1"
    and b: "set_masks (reader_data rd) cols1 = Inr cols2"
    and c: "convert_vals (reader_converters rd) cols2 = Inr cols3"
    and d: "t = \<lparr>dtype_names = map name cols3,
               columns = map_of (rev (map (\<lambda>c. (name c, c)) cols3))\<rparr>"
    by (auto simp: read_def BaseOutputter_call_def split: sum.splits)
  have "map name cols3 = map name cols"
    using read_rows_names[OF a] set_masks_names[OF b] convert_vals_names[OF c] by simp
  then show ?thesis
    using d dom_map_of_rev[of name cols3] by simp
qed

lemma data_lines_BAC:
  "get_data_lines rx_hash (reader_data reader_incl_AB_excl_B) table_BAC =
     Inr [''1 2 3'', ''4 5 6'']"
  by code_simp

lemma get_cols_BAC:
  "get_cols rx_hash (reader_header reader_incl_AB_excl_B)
     (get_str_vals (reader_data reader_incl_AB_excl_B) [''1 2 3'', ''4 5 6'']) table_BAC =
     Inr ([''B'', ''A'', ''C''], [Column ''A'' 1])"
  by code_simp

lemma read_BAC_returns: "\<not> isl (read rx_hash reader_incl_AB_excl_B table_BAC)"
  by code_simp

text \<open>
  C9. Let a read return a table, where the header resolved to the names \<open>nms\<close>, which
  contain two different names \<open>A\<close> and \<open>B\<close> at any positions, and where
  \<^verbatim>\<open>include_names\<close> is \<open>{A, B}\<close> and \<^verbatim>\<open>exclude_names\<close> is \<open>{B}\<close>. Then the
  table's column names are the occurrences of \<open>A\<close> in \<open>nms\<close>, its dictionary has the
  single key \<open>A\<close>, every selected column is named \<open>A\<close> and its index is a position of
  \<open>A\<close> in the header, and for a header without repeated names the table has exactly
  the one column \<open>A\<close>.
\<close>

theorem include_then_exclude_yields_column_A:
  assumes "get_data_lines rx (reader_data rd) tbl = Inr dl"
    and "get_cols rx (reader_header rd) (get_str_vals (reader_data rd) dl) tbl = Inr (nms, cols)"
    and "A \<in> set nms" and "B \<in> set nms" and "A \<noteq> B"
    and "header_include_names (reader_header rd) = Some incl" and "set incl = {A, B}"
    and "header_exclude_names (reader_header rd) = Some excl" and "set excl = {B}"
    and "read rx rd tbl = Inr t"
  shows "dtype_names t = filter (\<lambda>x. x = A) nms \<and> dom (columns t) = {A} \<and>
         (\<forall>col\<in>set cols. name col = A \<and> index col < length nms \<and> nms ! index col = A) \<and>
         (distinct nms \<longrightarrow> dtype_names t = [A])"
proof -
  from assms(2) have cols: "cols = select_cols nms (Some incl) (Some excl)"
    using assms(6,8)
    by (auto simp: get_cols_def split: sum.splits if_splits)
  have f: "map name cols = filter (\<lambda>x. x = A) nms"
    unfolding cols select_cols_names using assms(5,7,9)
    by (auto intro!: filter_cong)
  have s: "set (map name cols) = {A}"
    unfolding f using assms(3) by auto
  have i: "\<forall>col\<in>set cols. name col = A \<and> index col < length nms \<and> nms ! index col = A"
    using s select_cols_index[of _ nms "Some incl" "Some excl"] unfolding cols by auto
  have d: "distinct nms \<longrightarrow> filter (\<lambda>x. x = A) nms = [A]"
    using assms(3) by (induction nms) (auto simp: filter_empty_conv)
  show ?thesis
    using read_dtype_names[OF assms(10) assms(1) assms(2)] f s i d by simp
qed

theorem include_then_exclude_yields_column_A_witness:
  "get_cols rx_hash (reader_header reader_incl_AB_excl_B)
     (get_str_vals (reader_data reader_incl_AB_excl_B) [''1 2 3'', ''4 5 6'']) table_BAC =
     Inr ([''B'', ''A'', ''C''], [Column ''A'' 1]) \<and>
   \<not> isl (read rx_hash reader_incl_AB_excl_B table_BAC) \<and>
   dtype_names (projr (read rx_hash reader_incl_AB_excl_B table_BAC)) = [''A''] \<and>
   dom (columns (projr (read rx_hash reader_incl_AB_excl_B table_BAC))) = {''A''}"
proof -
  have r: "read rx_hash reader_incl_AB_excl_B table_BAC =
             Inr (projr (read rx_hash reader_incl_AB_excl_B table_BAC))"
    using read_BAC_returns by simp
  have i: "header_include_names (reader_header reader_incl_AB_excl_B) = Some [''A'', ''B'']"
    by (simp add: reader_incl_AB_excl_B_def)
  have e: "header_exclude_names (reader_header reader_incl_AB_excl_B) = Some [''B'']"
    by (simp add: reader_incl_AB_excl_B_def)
  have "dtype_names (projr (read rx_hash reader_incl_AB_excl_B table_BAC)) =
          filter (\<lambda>x. x = ''A'') [''B'', ''A'', ''C''] \<and>
        dom (columns (projr (read rx_hash reader_incl_AB_excl_B table_BAC))) = {''A''}"
    using include_then_exclude_yields_column_A
            [OF data_lines_BAC get_cols_BAC _ _ _ i _ e _ r, of "''A''" "''B''"]
    by simp
  then show ?thesis
    using get_cols_BAC read_BAC_returns by simp
qed

section \<open>Fill values and masks\<close>

lemma raises: "isl r \<Longrightarrow> projl r = e \<Longrightarrow> r = Inl e"
  by (cases r) auto

lemma fill_loop_NameError:
  "xs \<noteq> [] \<Longrightarrow> fill_loop fv xs = Inl (NameError ''fill_values'')"
  by (cases xs) (simp_all add: lookup_name_def set_masks_locals_def module_names_def)

lemma set_masks_cols_NameError:
  "\<exists>col\<in>set cols. str_vals col \<noteq> [] \<Longrightarrow>
   set_masks_cols fv cols = Inl (NameError ''fill_values'')"
proof (induction cols)
  case Nil
  then show ?case by simp
next
  case (Cons col cols)
  show ?case
  proof (cases "str_vals col = []")
    case True
    with Cons show ?thesis by simp
  next
    case False
    then show ?thesis by (simp add: fill_loop_NameError)
  qed
qed

lemma read_empty_field_isl: "isl (read rx_hash comma_fill_reader table_empty_field)"
  by code_simp

lemma read_empty_field_projl:
  "projl (read rx_hash comma_fill_reader table_empty_field) = NameError ''fill_values''"
  by code_simp

text \<open>
  C1. The claim: with fill rules configured, a value equal to a bad literal is replaced
  by its fill literal and masked, so that the rule from the empty string to -999 makes
  an empty field read back as -999. The code: \<^verbatim>\<open>set_masks\<close> reads the unbound name
  \<^verbatim>\<open>fill_values\<close> instead of \<^verbatim>\<open>self.fill_values\<close>, so reading the table
  \<^verbatim>\<open>a,b / 1, / 3,4\<close> with that rule raises NameError and returns no table.
\<close>

theorem fill_values_read_raises_NameError:
  "read rx_hash comma_fill_reader table_empty_field = Inl (NameError ''fill_values'')"
  by (rule raises[OF read_empty_field_isl read_empty_field_projl])

section \<open>Data lines\<close>

lemma BaseData_process_lines_filter:
  "BaseData_process_lines rx comment lines =
     filter (\<lambda>x. strip x \<noteq> [] \<and> \<not> (truthy comment \<and> rx (the comment) x)) lines"
  by (simp add: BaseData_process_lines_def Let_def)

lemma end_line_function_TypeError:
  assumes "data_end_line d = LFunc f"
    and "data_start_line d \<noteq> LNone \<or> f (BaseData_process_lines rx (data_comment d) lines) \<noteq> None"
    and "\<forall>g. data_start_line d \<noteq> LFunc g"
  shows "get_data_lines rx d lines =
     Inl (TypeError ''slice indices must be integers or None or have an __index__ method'')"
  using assms by (cases "data_start_line d") (auto simp: get_data_lines_def Let_def)

lemma end_func_index:
  "get_line_index (data_end_line (reader_data end_func_reader))
     (BaseData_process_lines rx_hash (data_comment (reader_data end_func_reader)) table_abc) =
     Some 2"
  by code_simp

lemma read_end_func_isl: "isl (read rx_hash end_func_reader table_abc)"
  by code_simp

lemma read_end_func_projl:
  "projl (read rx_hash end_func_reader table_abc) =
     TypeError ''slice indices must be integers or None or have an __index__ method''"
  by code_simp

text \<open>
  C8. The claim: when the end locator is a function, the data lines are the
  comment-filtered lines sliced to end at the index the function computes. The code:
  \<^verbatim>\<open>get_data_lines\<close> computes that index (2 for \<^verbatim>\<open>lambda lines: 2\<close> on the table
  below) but slices with \<^verbatim>\<open>self.end_line\<close>, the function itself, so the read raises
  TypeError instead of reading the one data line before index 2.
\<close>

theorem end_line_function_read_raises_TypeError:
  "get_line_index (data_end_line (reader_data end_func_reader))
     (BaseData_process_lines rx_hash (data_comment (reader_data end_func_reader)) table_abc) =
     Some 2 \<and>
   read rx_hash end_func_reader table_abc =
     Inl (TypeError ''slice indices must be integers or None or have an __index__ method'')"
  using end_func_index raises[OF read_end_func_isl read_end_func_projl] by simp

section \<open>Header lines\<close>

lemma BaseHeader_process_lines_comment:
  "truthy comment \<Longrightarrow>
   BaseHeader_process_lines rx comment lines =
     gen_of_list (filter (\<lambda>x. \<not> rx (the comment) x) lines)"
  by (induction lines) auto

lemma BaseHeader_process_lines_no_comment:
  "\<not> truthy comment \<Longrightarrow> [] \<notin> set lines \<Longrightarrow>
   BaseHeader_process_lines rx comment lines = gen_of_list lines"
  by (induction lines) auto

lemma data_lines_blank_first:
  "BaseData_process_lines rx_hash (Some comment_hash) table_blank_first =
     [''a b c'', ''1 2 3'']"
  by code_simp

lemma header_line_blank_first:
  "find_header_line 0 0
     (BaseHeader_process_lines rx_hash (Some comment_hash) table_blank_first) = Inr []"
  by code_simp

lemma header_line_blank_first_no_comment:
  "find_header_line 1 0 (BaseHeader_process_lines rx_hash None table_blank_first) =
     Inl (NameError ''re_comment'')"
  by code_simp

lemma read_blank_first_isl: "isl (read rx_hash whitespace_reader table_blank_first)"
  by code_simp

lemma read_blank_first_projl:
  "projl (read rx_hash whitespace_reader table_blank_first) =
     InconsistentTableError (HeaderMismatch 0 3 [] [''1'', ''2'', ''3''])"
  by code_simp

text \<open>
  C7. The claim: comment lines and blank lines are excluded from header-line index
  counting and from data parsing alike. The code: \<^verbatim>\<open>BaseData.process_lines\<close> drops
  both, but the test of \<^verbatim>\<open>BaseHeader.process_lines\<close> yields an empty line when a
  comment pattern is set. For a comment line, an empty line, the header \<^verbatim>\<open>a b c\<close> and
  one data row, the data lines are the header and the row, while the header line of
  index 0 is the empty line: the header has no names and the read fails.
\<close>

theorem header_index_counts_blank_line:
  "BaseData_process_lines rx_hash (Some comment_hash) table_blank_first =
     [''a b c'', ''1 2 3''] \<and>
   find_header_line 0 0
     (BaseHeader_process_lines rx_hash (Some comment_hash) table_blank_first) = Inr [] \<and>
   read rx_hash whitespace_reader table_blank_first =
     Inl (InconsistentTableError (HeaderMismatch 0 3 [] [''1'', ''2'', ''3'']))"
  using data_lines_blank_first header_line_blank_first
    raises[OF read_blank_first_isl read_blank_first_projl]
  by simp

section \<open>Rows of unequal length\<close>

lemma append_vals_ok:
  "\<forall>col\<in>set cols. index col < length vals \<Longrightarrow>
   \<exists>cols'. append_vals cols vals = Inr cols' \<and> map name cols' = map name cols \<and>
            map index cols' = map index cols"
  by (induction cols) auto

lemma read_rows_mismatch_later:
  "gen_take (Suc i) g = Some rows \<Longrightarrow> \<forall>j<i. length (rows ! j) = n \<Longrightarrow>
   length (rows ! i) \<noteq> n \<Longrightarrow> \<forall>col\<in>set cols. index col < n \<Longrightarrow> 0 < k \<Longrightarrow>
   read_rows cols (Some n) k g =
     Inl (InconsistentTableError
            (RowMismatch (length cols) (length (rows ! i)) (k + i) (map name cols) (rows ! i)))"
proof (induction i arbitrary: g rows cols k)
  case 0
  then obtain r g' where g: "g = Yield r g'" by (cases g) auto
  with 0 have "rows = [r]" by auto
  with 0 g show ?case by simp
next
  case (Suc i)
  then obtain r g' where g: "g = Yield r g'" by (cases g) auto
  with Suc.prems(1) obtain rows' where r: "rows = r # rows'" "gen_take (Suc i) g' = Some rows'"
    by auto
  from Suc.prems(2) r have l: "length r = n" by auto
  from Suc.prems(2) r have a: "\<forall>j<i. length (rows' ! j) = n" by auto
  from Suc.prems(3) r have b: "length (rows' ! i) \<noteq> n" by simp
  from append_vals_ok[of cols r] Suc.prems(4) l obtain cols' where
    c: "append_vals cols r = Inr cols'" "map name cols' = map name cols"
       "map index cols' = map index cols"
    by auto
  have d: "\<forall>col\<in>set cols'. index col < n"
  proof
    fix col assume "col \<in> set cols'"
    then have "index col \<in> set (map index cols')" by simp
    then have "index col \<in> set (map index cols)" using c(3) by simp
    then show "index col < n" using Suc.prems(4) by auto
  qed
  have e: "length cols' = length cols" using c(2) by (metis length_map)
  have "read_rows cols' (Some n) (Suc k) g' =
     Inl (InconsistentTableError
            (RowMismatch (length cols') (length (rows' ! i)) (Suc k + i)
               (map name cols') (rows' ! i)))"
    by (rule Suc.IH[OF r(2) a b d]) simp
  then show ?case
    using g r l c e Suc.prems(5) by simp
qed

lemma read_rows_mismatch:
  assumes "gen_take (Suc i) g = Some rows"
    and "\<forall>j<i. length (rows ! j) = length (rows ! 0)"
    and "length (rows ! i) \<noteq> length (rows ! 0)"
    and "\<forall>col\<in>set cols. index col < length (rows ! 0)"
  shows "read_rows cols None 0 g =
     Inl (InconsistentTableError
            (RowMismatch (length cols) (length (rows ! i)) i (map name cols) (rows ! i)))"
proof -
  from assms(3) obtain i' where i: "i = Suc i'" by (cases i) auto
  from assms(1) obtain r g' where g: "g = Yield r g'" by (cases g) auto
  with assms(1) i obtain rows' where r: "rows = r # rows'" "gen_take (Suc i') g' = Some rows'"
    by auto
  have a: "\<forall>j<i'. length (rows' ! j) = length r"
    using assms(2) r i by auto
  have b: "length (rows' ! i') \<noteq> length r" using assms(3) r i by simp
  from append_vals_ok[of cols r] assms(4) r obtain cols' where
    c: "append_vals cols r = Inr cols'" "map name cols' = map name cols"
       "map index cols' = map index cols"
    by auto
  have d: "\<forall>col\<in>set cols'. index col < length r"
  proof
    fix col assume "col \<in> set cols'"
    then have "index col \<in> set (map index cols')" by simp
    then have "index col \<in> set (map index cols)" using c(3) by simp
    then show "index col < length r" using assms(4) r by auto
  qed
  have e: "length cols' = length cols" using c(2) by (metis length_map)
  have "read_rows cols' (Some (length r)) (Suc 0) g' =
     Inl (InconsistentTableError
            (RowMismatch (length cols') (length (rows' ! i')) (Suc 0 + i')
               (map name cols') (rows' ! i')))"
    by (rule read_rows_mismatch_later[OF r(2) a b d]) simp
  then show ?thesis
    using g r c e i by simp
qed

lemma select_cols_index_bound:
  "col \<in> set (select_cols nms incl excl) \<Longrightarrow> index col < length nms"
  by (auto simp: select_cols_def Let_def Column_def in_set_enumerate_eq)

lemma gen_take_next:
  "gen_take (Suc i) g = Some rows \<Longrightarrow> gen_next g = Inr (rows ! 0)"
  by (cases g) auto

lemma data_lines_short_row:
  "get_data_lines rx_hash (reader_data whitespace_reader) table_short_row =
     Inr [''1 2 3'', ''4 5'', ''6 7 8'']"
  by code_simp

lemma get_cols_short_row:
  "get_cols rx_hash (reader_header whitespace_reader)
     (get_str_vals (reader_data whitespace_reader) [''1 2 3'', ''4 5'', ''6 7 8''])
     table_short_row =
     Inr ([''a'', ''b'', ''c''], [Column ''a'' 0, Column ''b'' 1, Column ''c'' 2])"
  by code_simp

lemma rows_short_row:
  "gen_take (Suc 1) (get_str_vals (reader_data whitespace_reader)
      [''1 2 3'', ''4 5'', ''6 7 8'']) = Some [[''1'', ''2'', ''3''], [''4'', ''5'']]"
  by code_simp

lemma data_lines_short_first_row:
  "get_data_lines rx_hash (reader_data whitespace_reader) table_short_first_row =
     Inr [''1 2'', ''3 4 5'']"
  by code_simp

lemma rows_short_first_row:
  "gen_take 2 (get_str_vals (reader_data whitespace_reader) [''1 2'', ''3 4 5'']) =
     Some [[''1'', ''2''], [''3'', ''4'', ''5'']]"
  by code_simp

lemma read_short_first_row_isl: "isl (read rx_hash whitespace_reader table_short_first_row)"
  by code_simp

lemma read_short_first_row_projl:
  "projl (read rx_hash whitespace_reader table_short_first_row) =
     InconsistentTableError (HeaderMismatch 3 2 [''a'', ''b'', ''c''] [''1'', ''2''])"
  by code_simp

text \<open>
  C2, as amended. Let the header resolve (\<^verbatim>\<open>get_cols\<close> returns, so the header has as
  many names as data row 0 has fields), and let the data splitter yield the rows
  \<open>rows\<close> up to row \<open>i\<close>, where every row before \<open>i\<close> has the length of row 0 and row
  \<open>i\<close> has another length. Then the read returns no table: it raises
  InconsistentTableError for data line \<open>i\<close>, with the number of columns, the length of
  row \<open>i\<close>, the index \<open>i\<close>, the column names and the fields of row \<open>i\<close>.
\<close>

theorem row_mismatch_fails_read:
  assumes "tbl \<noteq> []"
    and "get_data_lines rx (reader_data rd) tbl = Inr dl"
    and "get_cols rx (reader_header rd) (get_str_vals (reader_data rd) dl) tbl = Inr (nms, cols)"
    and "gen_take (Suc i) (get_str_vals (reader_data rd) dl) = Some rows"
    and "\<forall>j<i. length (rows ! j) = length (rows ! 0)"
    and "length (rows ! i) \<noteq> length (rows ! 0)"
  shows "read rx rd tbl =
     Inl (InconsistentTableError
            (RowMismatch (length cols) (length (rows ! i)) i (map name cols) (rows ! i)))"
proof -
  from assms(3) gen_take_next[OF assms(4)]
  have n: "length nms = length (rows ! 0)"
    and c: "cols = select_cols nms (header_include_names (reader_header rd))
                     (header_exclude_names (reader_header rd))"
    by (auto simp: get_cols_def split: sum.splits if_splits)
  have b: "\<forall>col\<in>set cols. index col < length (rows ! 0)"
    unfolding c n[symmetric] by (auto dest: select_cols_index_bound)
  show ?thesis
    using read_rows_mismatch[OF assms(4,5,6) b] assms(1,2,3)
    by (simp add: read_def get_lines_def)
qed

theorem row_mismatch_fails_read_witness:
  "read rx_hash whitespace_reader table_short_row =
     Inl (InconsistentTableError
            (RowMismatch 3 2 1 [''a'', ''b'', ''c''] [''4'', ''5'']))"
proof -
  have t: "table_short_row \<noteq> []" by (simp add: table_short_row_def)
  show ?thesis
    using row_mismatch_fails_read
            [OF t data_lines_short_row get_cols_short_row rows_short_row]
    by (simp add: Column_def)
qed

text \<open>
  C2, as stated, fails for the table \<^verbatim>\<open>a b c / 1 2 / 3 4 5\<close>: data row 1 is the first
  whose length differs from row 0's, but the read raises the header/first-row
  InconsistentTableError of \<^verbatim>\<open>get_cols\<close> (3 names, 2 fields), which names no row 1.
\<close>

theorem header_mismatch_precedes_row_mismatch:
  "get_data_lines rx_hash (reader_data whitespace_reader) table_short_first_row =
     Inr [''1 2'', ''3 4 5''] \<and>
   gen_take 2 (get_str_vals (reader_data whitespace_reader) [''1 2'', ''3 4 5'']) =
     Some [[''1'', ''2''], [''3'', ''4'', ''5'']] \<and>
   read rx_hash whitespace_reader table_short_first_row =
     Inl (InconsistentTableError (HeaderMismatch 3 2 [''a'', ''b'', ''c''] [''1'', ''2'']))"
  using data_lines_short_first_row rows_short_first_row
    raises[OF read_short_first_row_isl read_short_first_row_projl]
  by simp

section \<open>The guessing loop\<close>

lemma bad_name_iff:
  "bad_name nm \<longleftrightarrow>
     is_number nm \<or> nm = [] \<or>
     hd nm \<in> {CHR '' '', CHR '','', CHR ''|'', CHR 0x09, CHR 0x27, CHR 0x22} \<or>
     last nm \<in> {CHR '' '', CHR '','', CHR ''|'', CHR 0x09, CHR 0x27, CHR 0x22}"
  by (auto simp: bad_name_def bads_def)

lemma bad_cols_iff:
  "bad_cols cols \<longleftrightarrow>
     length cols < 2 \<or>
     (\<exists>col\<in>set cols. is_number (name col) \<or> name col = [] \<or>
        hd (name col) \<in> {CHR '' '', CHR '','', CHR ''|'', CHR 0x09, CHR 0x27, CHR 0x22} \<or>
        last (name col) \<in> {CHR '' '', CHR '','', CHR ''|'', CHR 0x09, CHR 0x27, CHR 0x22})"
  unfolding bad_cols_def list_ex_iff bad_name_iff by auto

lemma is_number_1: "is_number ''1''" by code_simp

lemma numeric_first_caller:
  "attempt_numeric_first (update_guess_kwargs caller_kwargs caller_kwargs) =
     Inr (''numeric names'', numeric_cols)"
  by code_simp

lemma numeric_cols_names: "map name numeric_cols = [''1'', ''2'']"
  by code_simp

text \<open>
  C6. When a candidate's read returns, the guessing loop goes on with the next
  candidate exactly when fewer than 2 columns were produced or some column name reads
  as a number, is empty, or begins or ends with a space, comma, pipe, tab, single quote
  or double quote; otherwise it returns the table. In particular columns named 1 and 2
  are rejected and the loop goes on.
\<close>

theorem heuristic_rejection_continues:
  assumes "attempt (update_guess_kwargs rk g) = Inr (dat, cols)"
  shows "guess_loop attempt rk (g # gs) =
           (if length cols < 2 \<or>
               (\<exists>col\<in>set cols. is_number (name col) \<or> name col = [] \<or>
                  hd (name col) \<in> {CHR '' '', CHR '','', CHR ''|'', CHR 0x09, CHR 0x27, CHR 0x22} \<or>
                  last (name col) \<in> {CHR '' '', CHR '','', CHR ''|'', CHR 0x09, CHR 0x27, CHR 0x22})
            then guess_loop attempt rk gs else Inr (Some dat)) \<and>
         (map name cols = [''1'', ''2''] \<longrightarrow>
            guess_loop attempt rk (g # gs) = guess_loop attempt rk gs)"
proof -
  have a: "guess_loop attempt rk (g # gs) =
             (if bad_cols cols then guess_loop attempt rk gs else Inr (Some dat))"
    using assms by simp
  have b: "map name cols = [''1'', ''2''] \<Longrightarrow> bad_cols cols"
  proof -
    assume m: "map name cols = [''1'', ''2'']"
    then obtain c1 c2 where "cols = [c1, c2]" "name c1 = ''1''" by auto
    then show "bad_cols cols"
      using is_number_1 by (simp add: bad_cols_def bad_name_def)
  qed
  show ?thesis using a b bad_cols_iff[of cols] by auto
qed

theorem heuristic_rejection_continues_witness:
  "guess_loop attempt_numeric_first caller_kwargs (caller_kwargs # get_guess_kwargs_list) =
     guess_loop attempt_numeric_first caller_kwargs get_guess_kwargs_list"
  using heuristic_rejection_continues
          [of attempt_numeric_first caller_kwargs caller_kwargs "''numeric names''"
              numeric_cols get_guess_kwargs_list]
    numeric_first_caller numeric_cols_names
  by blast

lemma caught_failed_to_convert: "caught (failed_to_convert nm)"
  by (simp add: failed_to_convert_def)

lemma rdb_only_caller:
  "attempt_rdb_only (update_guess_kwargs caller_kwargs caller_kwargs) =
     Inl (failed_to_convert ''a'')"
  by code_simp

lemma never_converts_loop:
  "guess_loop attempt_never_converts caller_kwargs (guess_candidates caller_kwargs) = Inr None"
  by code_simp

lemma convert_x_fails:
  "convert_vals [''a'' \<mapsto> ConvOne conv_int] [(Column ''a'' 0)\<lparr>str_vals := [''x'']\<rparr>] =
     Inl (failed_to_convert ''a'')"
  by code_simp

lemma guess_rdb_only: "guess attempt_rdb_only caller_kwargs = Inr ''rdb table''"
  by code_simp

text \<open>
  C3, as amended. A conversion failure is the ValueError ``Column ... failed to
  convert'', and the guessing loop catches ValueError: when a candidate's read fails to
  convert, the loop goes on with the next candidate; and when the loop accepts no
  candidate and the last attempt with the caller's own arguments fails to convert, the
  guess raises InconsistentTableError (unable to read the table with guessing).
\<close>

theorem conversion_failure_is_caught_by_guesser:
  "(attempt (update_guess_kwargs rk g) = Inl (failed_to_convert nm) \<longrightarrow>
      guess_loop attempt rk (g # gs) = guess_loop attempt rk gs) \<and>
   (guess_loop attempt rk (guess_candidates rk) = Inr None \<and>
    attempt rk = Inl (failed_to_convert nm) \<longrightarrow>
      guess attempt rk = Inl (InconsistentTableError UnableToGuess))"
  by (auto simp: guess_def failed_to_convert_def)

theorem conversion_failure_is_caught_by_guesser_witness:
  "guess_loop attempt_rdb_only caller_kwargs (caller_kwargs # get_guess_kwargs_list) =
     guess_loop attempt_rdb_only caller_kwargs get_guess_kwargs_list \<and>
   guess attempt_never_converts caller_kwargs = Inl (InconsistentTableError UnableToGuess)"
  using conversion_failure_is_caught_by_guesser
          [of attempt_rdb_only caller_kwargs caller_kwargs "''a''" get_guess_kwargs_list]
        conversion_failure_is_caught_by_guesser
          [of attempt_never_converts caller_kwargs caller_kwargs "''a''" get_guess_kwargs_list]
        rdb_only_caller never_converts_loop
  by (simp add: attempt_never_converts_def)

text \<open>
  C3, as stated, fails: converting the column a with the value x by an integer-only
  converter is a conversion failure; a read attempt that fails so for every candidate
  but the RDB reader does not end the guess, which returns the RDB reader's table.
\<close>

theorem conversion_failure_swallowed_by_guesser:
  "convert_vals [''a'' \<mapsto> ConvOne conv_int] [(Column ''a'' 0)\<lparr>str_vals := [''x'']\<rparr>] =
     Inl (failed_to_convert ''a'') \<and>
   attempt_rdb_only (update_guess_kwargs caller_kwargs caller_kwargs) =
     Inl (failed_to_convert ''a'') \<and>
   guess attempt_rdb_only caller_kwargs = Inr ''rdb table''"
  using convert_x_fails rdb_only_caller guess_rdb_only by simp

lemma update_guess_kwargs_keeps:
  "map_of g k = Some v \<Longrightarrow> map_of (update_guess_kwargs rk g) k = Some v"
  by (induction rk g rule: update_guess_kwargs.induct) (auto split: option.splits)

text \<open>
  C4. The claim: a candidate whose own value for a key differs from the caller's is
  skipped. The code: \<^verbatim>\<open>continue\<close> ends only the step of the inner loop over the
  caller's keys, so the candidate is attempted with its own value. With the caller's
  delimiter a comma, the commented-header candidate keeps its pipe delimiter, and a
  read that succeeds with the pipe delimiter only (and fails with the caller's
  arguments) makes the guess return that candidate's table.
\<close>

theorem conflicting_candidate_is_attempted:
  "update_guess_kwargs caller_kwargs_comma
     [(''Reader'', ReaderV CommentedHeader), (''delimiter'', StrV ''|''),
      (''quotechar'', StrV dquote)] =
     [(''Reader'', ReaderV CommentedHeader), (''delimiter'', StrV ''|''),
      (''quotechar'', StrV dquote), (''Outputter'', ClassV ''BaseOutputter'')] \<and>
   attempt_pipe_only caller_kwargs_comma = Inl (ValueError ''No header line found in table'') \<and>
   guess attempt_pipe_only caller_kwargs_comma = Inr ''pipe table''"
  by code_simp

lemma guess_loop_first_accepted:
  "\<forall>g\<in>set pre. (case attempt (update_guess_kwargs rk g) of
                    Inl e \<Rightarrow> caught e | Inr (d, cs) \<Rightarrow> bad_cols cs) \<Longrightarrow>
   attempt (update_guess_kwargs rk c) = Inr (dat, cols) \<Longrightarrow> \<not> bad_cols cols \<Longrightarrow>
   guess_loop attempt rk (pre @ c # post) = Inr (Some dat)"
  by (induction pre) (auto split: sum.splits)

lemma guess_candidates_explicit: 
  "guess_candidates rk =
     [rk,
      [(''Reader'', ReaderV Rdb)],
      [(''Reader'', ReaderV Tab)],
      [(''Reader'', ReaderV Cds)],
      [(''Reader'', ReaderV Daophot)],
      [(''Reader'', ReaderV Ipac)],
      [(''Reader'', ReaderV CommentedHeader), (''delimiter'', StrV ''|''), (''quotechar'', StrV dquote)],
      [(''Reader'', ReaderV CommentedHeader), (''delimiter'', StrV ''|''), (''quotechar'', StrV squote)],
      [(''Reader'', ReaderV CommentedHeader), (''delimiter'', StrV '',''), (''quotechar'', StrV dquote)],
      [(''Reader'', ReaderV CommentedHeader), (''delimiter'', StrV '',''), (''quotechar'', StrV squote)],
      [(''Reader'', ReaderV CommentedHeader), (''delimiter'', StrV '' ''), (''quotechar'', StrV dquote)],
      [(''Reader'', ReaderV CommentedHeader), (''delimiter'', StrV '' ''), (''quotechar'', StrV squote)],
      [(''Reader'', ReaderV CommentedHeader), (''delimiter'', StrV backslash_s), (''quotechar'', StrV dquote)],
      [(''Reader'', ReaderV CommentedHeader), (''delimiter'', StrV backslash_s), (''quotechar'', StrV squote)],
      [(''Reader'', ReaderV BasicReader), (''delimiter'', StrV ''|''), (''quotechar'', StrV dquote)],
      [(''Reader'', ReaderV BasicReader), (''delimiter'', StrV ''|''), (''quotechar'', StrV squote)],
      [(''Reader'', ReaderV BasicReader), (''delimiter'', StrV '',''), (''quotechar'', StrV dquote)],
      [(''Reader'', ReaderV BasicReader), (''delimiter'', StrV '',''), (''quotechar'', StrV squote)],
      [(''Reader'', ReaderV BasicReader), (''delimiter'', StrV '' ''), (''quotechar'', StrV dquote)],
      [(''Reader'', ReaderV BasicReader), (''delimiter'', StrV '' ''), (''quotechar'', StrV squote)],
      [(''Reader'', ReaderV BasicReader), (''delimiter'', StrV backslash_s), (''quotechar'', StrV dquote)],
      [(''Reader'', ReaderV BasicReader), (''delimiter'', StrV backslash_s), (''quotechar'', StrV squote)],
      [(''Reader'', ReaderV NoHeader), (''delimiter'', StrV ''|''), (''quotechar'', StrV dquote)],
      [(''Reader'', ReaderV NoHeader), (''delimiter'', StrV ''|''), (''quotechar'', StrV squote)],
      [(''Reader'', ReaderV NoHeader), (''delimiter'', StrV '',''), (''quotechar'', StrV dquote)],
      [(''Reader'', ReaderV NoHeader), (''delimiter'', StrV '',''), (''quotechar'', StrV squote)],
      [(''Reader'', ReaderV NoHeader), (''delimiter'', StrV '' ''), (''quotechar'', StrV dquote)],
      [(''Reader'', ReaderV NoHeader), (''delimiter'', StrV '' ''), (''quotechar'', StrV squote)],
      [(''Reader'', ReaderV NoHeader), (''delimiter'', StrV backslash_s), (''quotechar'', StrV dquote)],
      [(''Reader'', ReaderV NoHeader), (''delimiter'', StrV backslash_s), (''quotechar'', StrV squote)]]"
  by (simp add: guess_candidates_def get_guess_kwargs_list_def)

lemma guess_first_accepted:
  assumes "guess_candidates rk = pre @ c # post"
    and "\<forall>g\<in>set pre. (case attempt (update_guess_kwargs rk g) of
                    Inl e \<Rightarrow> caught e | Inr (d, cs) \<Rightarrow> bad_cols cs)"
    and "attempt (update_guess_kwargs rk c) = Inr (dat, cols)" and "\<not> bad_cols cols"
  shows "guess attempt rk = Inr dat"
  using guess_loop_first_accepted[OF assms(2,3,4), of post] assms(1)
  by (simp add: guess_def)

lemma candidates_split:
  "guess_candidates caller_kwargs =
     [caller_kwargs, [(''Reader'', ReaderV Rdb)]] @ [(''Reader'', ReaderV Tab)] #
     drop 3 (guess_candidates caller_kwargs)"
  by code_simp

lemma numeric_first_pre:
  "\<forall>g\<in>set [caller_kwargs, [(''Reader'', ReaderV Rdb)]].
     (case attempt_numeric_first (update_guess_kwargs caller_kwargs g) of
        Inl e \<Rightarrow> caught e | Inr (d, cs) \<Rightarrow> bad_cols cs)"
  by code_simp

lemma numeric_first_tab:
  "attempt_numeric_first (update_guess_kwargs caller_kwargs [(''Reader'', ReaderV Tab)]) =
     Inr (''tab table'', good_cols)"
  by code_simp

lemma good_cols_accepted: "\<not> bad_cols good_cols"
  by code_simp

text \<open>
  C5, as amended. The candidates are the caller's arguments, then the presets RDB,
  tab-delimited, CDS, DAOphot and IPAC in this order, then the commented-header, basic
  and no-header readers, each with the delimiters pipe, comma, space and backslash-s,
  each with the double and the single quote character: 30 candidates. They are tried
  in this order: when every candidate before one is rejected (a caught exception or bad
  columns) and that one is read into acceptable columns, the guess returns its table.
\<close>

theorem guess_candidates_in_order:
  "guess_candidates rk =
     [rk,
      [(''Reader'', ReaderV Rdb)],
      [(''Reader'', ReaderV Tab)],
      [(''Reader'', ReaderV Cds)],
      [(''Reader'', ReaderV Daophot)],
      [(''Reader'', ReaderV Ipac)],
      [(''Reader'', ReaderV CommentedHeader), (''delimiter'', StrV ''|''), (''quotechar'', StrV dquote)],
      [(''Reader'', ReaderV CommentedHeader), (''delimiter'', StrV ''|''), (''quotechar'', StrV squote)],
      [(''Reader'', ReaderV CommentedHeader), (''delimiter'', StrV '',''), (''quotechar'', StrV dquote)],
      [(''Reader'', ReaderV CommentedHeader), (''delimiter'', StrV '',''), (''quotechar'', StrV squote)],
      [(''Reader'', ReaderV CommentedHeader), (''delimiter'', StrV '' ''), (''quotechar'', StrV dquote)],
      [(''Reader'', ReaderV CommentedHeader), (''delimiter'', StrV '' ''), (''quotechar'', StrV squote)],
      [(''Reader'', ReaderV CommentedHeader), (''delimiter'', StrV backslash_s), (''quotechar'', StrV dquote)],
      [(''Reader'', ReaderV CommentedHeader), (''delimiter'', StrV backslash_s), (''quotechar'', StrV squote)],
      [(''Reader'', ReaderV BasicReader), (''delimiter'', StrV ''|''), (''quotechar'', StrV dquote)],
      [(''Reader'', ReaderV BasicReader), (''delimiter'', StrV ''|''), (''quotechar'', StrV squote)],
      [(''Reader'', ReaderV BasicReader), (''delimiter'', StrV '',''), (''quotechar'', StrV dquote)],
      [(''Reader'', ReaderV BasicReader), (''delimiter'', StrV '',''), (''quotechar'', StrV squote)],
      [(''Reader'', ReaderV BasicReader), (''delimiter'', StrV '' ''), (''quotechar'', StrV dquote)],
      [(''Reader'', ReaderV BasicReader), (''delimiter'', StrV '' ''), (''quotechar'', StrV squote)],
      [(''Reader'', ReaderV BasicReader), (''delimiter'', StrV backslash_s), (''quotechar'', StrV dquote)],
      [(''Reader'', ReaderV BasicReader), (''delimiter'', StrV backslash_s), (''quotechar'', StrV squote)],
      [(''Reader'', ReaderV NoHeader), (''delimiter'', StrV ''|''), (''quotechar'', StrV dquote)],
      [(''Reader'', ReaderV NoHeader), (''delimiter'', StrV ''|''), (''quotechar'', StrV squote)],
      [(''Reader'', ReaderV NoHeader), (''delimiter'', StrV '',''), (''quotechar'', StrV dquote)],
      [(''Reader'', ReaderV NoHeader), (''delimiter'', StrV '',''), (''quotechar'', StrV squote)],
      [(''Reader'', ReaderV NoHeader), (''delimiter'', StrV '' ''), (''quotechar'', StrV dquote)],
      [(''Reader'', ReaderV NoHeader), (''delimiter'', StrV '' ''), (''quotechar'', StrV squote)],
      [(''Reader'', ReaderV NoHeader), (''delimiter'', StrV backslash_s), (''quotechar'', StrV dquote)],
      [(''Reader'', ReaderV NoHeader), (''delimiter'', StrV backslash_s), (''quotechar'', StrV squote)]] \<and>
   (\<forall>pre c post dat cols.
      guess_candidates rk = pre @ c # post \<and>
      (\<forall>g\<in>set pre. (case attempt (update_guess_kwargs rk g) of
                        Inl e \<Rightarrow> caught e | Inr (d, cs) \<Rightarrow> bad_cols cs)) \<and>
      attempt (update_guess_kwargs rk c) = Inr (dat, cols) \<and> \<not> bad_cols cols \<longrightarrow>
      guess attempt rk = Inr dat)"
  using guess_candidates_explicit[of rk] guess_first_accepted[of rk _ _ _ attempt]
  by blast

theorem guess_candidates_in_order_witness:
  "guess attempt_numeric_first caller_kwargs = Inr ''tab table''"
  using guess_candidates_in_order[of caller_kwargs attempt_numeric_first]
    candidates_split numeric_first_pre numeric_first_tab good_cols_accepted
  by blast

text \<open>
  C5, as stated, fails: the second candidate is the RDB reader and the third the tab
  reader, where the claim has them in the other order, and IPAC is a sixth candidate
  the claim does not list.
\<close>

theorem candidate_order_differs_from_specified:
  "guess_candidates caller_kwargs ! 1 = [(''Reader'', ReaderV Rdb)] \<and>
   ([caller_kwargs] @ specified_guess_kwargs_list) ! 1 = [(''Reader'', ReaderV Tab)] \<and>
   guess_candidates caller_kwargs ! 2 = [(''Reader'', ReaderV Tab)] \<and>
   ([caller_kwargs] @ specified_guess_kwargs_list) ! 2 = [(''Reader'', ReaderV Rdb)] \<and>
   guess_candidates caller_kwargs ! 5 = [(''Reader'', ReaderV Ipac)] \<and>
   length (guess_candidates caller_kwargs) = 30 \<and>
   length ([caller_kwargs] @ specified_guess_kwargs_list) = 29 \<and>
   guess_candidates caller_kwargs \<noteq> [caller_kwargs] @ specified_guess_kwargs_list"
  by code_simp

end
